theory Spec2Isabelle
  imports Complex_Main "HOL-Library.Word"
begin

unbundle bit_operations_syntax

section \<open>CaptureCompositor: data model\<close>

text \<open>
  A shallow embedding of \<^verbatim>\<open>client/src/workers/CaptureCompositor.ts\<close>.
  JavaScript values are modelled as follows.
  \<^item> A \<^verbatim>\<open>number\<close> that the code is given is a \<^typ>\<open>real\<close>. The rounding and the
    overflow of IEEE doubles are outside the model. A division by zero is not: the
    result of an arithmetic operation is a \<^typ>\<open>real option\<close>, and \<open>None\<close> stands for a
    result that is not finite (Infinity, -Infinity or NaN).
  \<^item> A \<^verbatim>\<open>string\<close> is the list of its UTF-16 code units; \<open>js\<close> embeds an ASCII literal.
  \<^item> A bitmap is a width, a height and a function from pixel coordinates to a colour
    with premultiplied alpha.
  \<^item> \<^verbatim>\<open>Utils.time\<close>, \<^verbatim>\<open>Utils.mathFloor\<close> and \<^verbatim>\<open>console.log\<close> only produce log
    lines and are left out.
\<close>

type_synonym number = real
type_synonym jsstring = "16 word list"
type_synonym rgba = "real \<times> real \<times> real \<times> real"
type_synonym pixels = "nat \<Rightarrow> nat \<Rightarrow> rgba"

definition js :: "string \<Rightarrow> jsstring" where
  "js s = map (\<lambda>c. of_nat (of_char c)) s"

text \<open>
  \<^verbatim>\<open>a / b\<close> for finite \<open>a\<close> and \<open>b\<close> is not finite exactly when \<open>b\<close> is zero, and
  \<^verbatim>\<open>a * r\<close> for a finite \<open>a\<close> is not finite when \<open>r\<close> is not.
\<close>

definition js_div :: "number \<Rightarrow> number \<Rightarrow> number option" where
  "js_div a b = (if b = 0 then None else Some (a / b))"

definition js_times :: "number \<Rightarrow> number option \<Rightarrow> number option" where
  "js_times a r = (case r of None \<Rightarrow> None | Some v \<Rightarrow> Some (a * v))"

record CaptureComment =
  top_px :: number
  left :: number
  color :: jsstring
  font_size :: number
  text_str :: jsstring

record ICaptureCommentData =
  container_width :: number
  container_height :: number
  opacity :: number
  comments :: "CaptureComment list"

record ICaptureExifData =
  captured_at :: jsstring
  captured_playback_position :: number
  network_id :: number
  service_id :: number
  event_id :: number
  title :: jsstring
  description :: jsstring
  start_time :: jsstring
  end_time :: jsstring
  duration :: number
  caption_text :: "jsstring option"
  is_caption_composited :: bool
  is_comment_composited :: bool

datatype Mode = VideoOnly | CompositingCaption | Both

record ImageBitmap =
  bm_width :: nat
  bm_height :: nat
  bm_data :: pixels

record ICaptureCompositorOptions =
  mode :: Mode
  capture :: ImageBitmap
  caption :: "ImageBitmap option"
  superimpose :: "ImageBitmap option"
  capture_comment_data :: "ICaptureCommentData option"
  capture_exif_data :: ICaptureExifData

text \<open>
  The value of an EXIF tag as the code hands it to piexifjs: a number, an array of
  numbers or a string.
\<close>

datatype exif_value = Number nat | Numbers "nat list" | Text jsstring

record IExif =
  zeroth :: "nat \<rightharpoonup> exif_value"
  Exif :: "nat \<rightharpoonup> exif_value"

text \<open>
  A \<^verbatim>\<open>Blob\<close> is kept in structured form: its MIME type, the opaque raster that was
  handed to the JPEG encoder, and the EXIF block spliced in afterwards (if any). The
  bytes of the real blob are a function of these three.
\<close>

record Blob =
  blob_type :: jsstring
  blob_width :: nat
  blob_height :: nat
  blob_image :: pixels
  blob_exif :: "IExif option"

record ICaptureCompositorResult =
  capture_normal :: "Blob option"
  capture_caption :: "Blob option"

datatype error = AssertionError | InvalidStateError

section \<open>What the code takes from its environment\<close>

text \<open>
  Library and platform functions that the source calls but does not define are
  parameters of the model: \<^verbatim>\<open>Utils.version\<close>, \<^verbatim>\<open>dayjs(s).format(p)\<close>,
  \<^verbatim>\<open>JSON.stringify\<close> on the metadata record, the rasteriser behind
  \<^verbatim>\<open>fillText\<close> (the glyphs and their shadow as one layer of the size of the canvas),
  the resampling that \<^verbatim>\<open>drawImage\<close> performs when source and destination sizes
  differ, and whether a string parses as a CSS colour.
\<close>

datatype TextBaseline = Alphabetic | Top

record FontSpec =
  font_weight :: jsstring
  font_size_px :: number
  font_family :: jsstring

record TextDraw =
  td_text :: jsstring
  td_x :: number
  td_y :: number
  td_fillStyle :: jsstring
  td_font :: FontSpec
  td_shadowOffsetX :: number
  td_shadowOffsetY :: number
  td_shadowBlur :: number
  td_shadowColor :: jsstring
  td_textBaseline :: TextBaseline
  td_globalAlpha :: number

record platform =
  Utils_version :: jsstring
  dayjs_format :: "jsstring \<Rightarrow> jsstring \<Rightarrow> jsstring"
  JSON_stringify :: "ICaptureExifData \<Rightarrow> jsstring"
  text_layer :: "TextDraw \<Rightarrow> nat \<Rightarrow> nat \<Rightarrow> pixels"
  resample :: "nat \<Rightarrow> nat \<Rightarrow> pixels \<Rightarrow> nat \<Rightarrow> nat \<Rightarrow> pixels"
  valid_color :: "jsstring \<Rightarrow> bool"

section \<open>Canvas operations\<close>

text \<open>
  Colours carry premultiplied alpha. \<open>source_over g s d\<close> is the Canvas
  \<^verbatim>\<open>source-over\<close> operator with global alpha \<open>g\<close>: the source \<open>s\<close>, attenuated by
  \<open>g\<close>, over the destination \<open>d\<close>.
\<close>

definition opaque_black :: rgba where
  "opaque_black = (0, 0, 0, 1)"

definition transparent_black :: rgba where
  "transparent_black = (0, 0, 0, 0)"

definition source_over :: "real \<Rightarrow> rgba \<Rightarrow> rgba \<Rightarrow> rgba" where
  "source_over g s d =
     (case s of (sr, sg, sb, sa) \<Rightarrow> case d of (dr, dg, db, da) \<Rightarrow>
        (g * sr + (1 - g * sa) * dr,
         g * sg + (1 - g * sa) * dg,
         g * sb + (1 - g * sa) * db,
         g * sa + (1 - g * sa) * da))"

definition scale_to :: "platform \<Rightarrow> nat \<Rightarrow> nat \<Rightarrow> pixels \<Rightarrow> nat \<Rightarrow> nat \<Rightarrow> pixels" where
  "scale_to P sw sh src dw dh =
     (if sw = dw \<and> sh = dh then src else resample P sw sh src dw dh)"

text \<open>
  The 2D context of the comment canvas (\<^verbatim>\<open>alpha: true\<close>): its drawing state with the
  defaults of the Canvas standard, and the \<^verbatim>\<open>fillText\<close> calls made so far, each
  with the state it was made in.
\<close>

record CommentContext =
  cc_width :: nat
  cc_height :: nat
  fillStyle :: jsstring
  font :: FontSpec
  shadowOffsetX :: number
  shadowOffsetY :: number
  shadowBlur :: number
  shadowColor :: jsstring
  textBaseline :: TextBaseline
  cc_globalAlpha :: number
  drawn :: "TextDraw list"

definition new_comment_context :: "nat \<Rightarrow> nat \<Rightarrow> CommentContext" where
  "new_comment_context w h =
     \<lparr>cc_width = w, cc_height = h,
      fillStyle = js ''#000000'',
      font = \<lparr>font_weight = js ''normal'', font_size_px = 10, font_family = js ''sans-serif''\<rparr>,
      shadowOffsetX = 0, shadowOffsetY = 0, shadowBlur = 0,
      shadowColor = js ''rgba(0, 0, 0, 0)'',
      textBaseline = Alphabetic,
      cc_globalAlpha = 1,
      drawn = []\<rparr>"

text \<open>
  The setters of the drawing state, as the Canvas standard has them: an assignment that
  the canvas does not accept leaves the state as it was. \<^verbatim>\<open>fillStyle\<close> accepts a
  string that parses as a CSS colour; \<^verbatim>\<open>shadowOffsetX\<close> and \<^verbatim>\<open>shadowOffsetY\<close>
  accept a finite number; \<^verbatim>\<open>shadowBlur\<close> accepts a finite number that is not
  negative.
\<close>

definition set_fillStyle :: "platform \<Rightarrow> jsstring \<Rightarrow> CommentContext \<Rightarrow> CommentContext" where
  "set_fillStyle P v c = (if valid_color P v then c\<lparr>fillStyle := v\<rparr> else c)"

definition set_shadowOffsetX :: "number option \<Rightarrow> CommentContext \<Rightarrow> CommentContext" where
  "set_shadowOffsetX v c = (case v of None \<Rightarrow> c | Some x \<Rightarrow> c\<lparr>shadowOffsetX := x\<rparr>)"

definition set_shadowOffsetY :: "number option \<Rightarrow> CommentContext \<Rightarrow> CommentContext" where
  "set_shadowOffsetY v c = (case v of None \<Rightarrow> c | Some y \<Rightarrow> c\<lparr>shadowOffsetY := y\<rparr>)"

definition set_shadowBlur :: "number option \<Rightarrow> CommentContext \<Rightarrow> CommentContext" where
  "set_shadowBlur v c =
     (case v of None \<Rightarrow> c | Some b \<Rightarrow> (if 0 \<le> b then c\<lparr>shadowBlur := b\<rparr> else c))"

text \<open>
  \<^verbatim>\<open>fillText(text, x, y)\<close> returns without drawing when \<open>x\<close> or \<open>y\<close> is not finite;
  otherwise the call is recorded with the drawing state it is made in.
\<close>

definition fillText :: "jsstring \<Rightarrow> number option \<Rightarrow> number option \<Rightarrow> CommentContext \<Rightarrow> CommentContext" where
  "fillText t x y c =
     (case x of
        None \<Rightarrow> c
      | Some x' \<Rightarrow>
     (case y of
        None \<Rightarrow> c
      | Some y' \<Rightarrow>
          c\<lparr>drawn := drawn c @
            [\<lparr>td_text = t, td_x = x', td_y = y',
              td_fillStyle = fillStyle c, td_font = font c,
              td_shadowOffsetX = shadowOffsetX c, td_shadowOffsetY = shadowOffsetY c,
              td_shadowBlur = shadowBlur c, td_shadowColor = shadowColor c,
              td_textBaseline = textBaseline c, td_globalAlpha = cc_globalAlpha c\<rparr>]\<rparr>))"

text \<open>The raster of a comment canvas: each text layer over a transparent surface, in call order.\<close>

definition paint_text :: "platform \<Rightarrow> nat \<Rightarrow> nat \<Rightarrow> pixels \<Rightarrow> TextDraw \<Rightarrow> pixels" where
  "paint_text P w h px d =
     (\<lambda>x y. source_over (td_globalAlpha d) (text_layer P d w h x y) (px x y))"

definition comment_pixels :: "platform \<Rightarrow> CommentContext \<Rightarrow> pixels" where
  "comment_pixels P c =
     foldl (paint_text P (cc_width c) (cc_height c)) (\<lambda>x y. transparent_black) (drawn c)"

text \<open>
  The 2D context of an output canvas (\<^verbatim>\<open>alpha: false\<close>): it starts opaque black.
  Setting \<^verbatim>\<open>globalAlpha\<close> outside of 0..1 is ignored, as the Canvas standard says.
\<close>

record Context2D =
  c_width :: nat
  c_height :: nat
  globalAlpha :: number
  c_pixels :: pixels

definition new_context2d :: "nat \<Rightarrow> nat \<Rightarrow> Context2D" where
  "new_context2d w h =
     \<lparr>c_width = w, c_height = h, globalAlpha = 1, c_pixels = (\<lambda>x y. opaque_black)\<rparr>"

definition set_globalAlpha :: "number \<Rightarrow> Context2D \<Rightarrow> Context2D" where
  "set_globalAlpha v c = (if 0 \<le> v \<and> v \<le> 1 then c\<lparr>globalAlpha := v\<rparr> else c)"

text \<open>\<^verbatim>\<open>context.drawImage(source, 0, 0, dw, dh)\<close> for a source of size \<open>sw\<close> by \<open>sh\<close>.\<close>

definition drawImage :: "platform \<Rightarrow> nat \<Rightarrow> nat \<Rightarrow> pixels \<Rightarrow> nat \<Rightarrow> nat \<Rightarrow> Context2D \<Rightarrow> Context2D" where
  "drawImage P sw sh src dw dh c =
     c\<lparr>c_pixels := (\<lambda>x y.
        if x < dw \<and> y < dh
        then source_over (globalAlpha c) (scale_to P sw sh src dw dh x y) (c_pixels c x y)
        else c_pixels c x y)\<rparr>"

text \<open>
  An \<^verbatim>\<open>OffscreenCanvas\<close> with its context: a 2D context, or a
  \<^verbatim>\<open>bitmaprenderer\<close> context holding the bitmap transferred into it. (With
  \<^verbatim>\<open>alpha: false\<close> that bitmap is shown over opaque black, which the JPEG export
  below does in any case.)
\<close>

datatype OffscreenCanvas = With2D Context2D | WithBitmapRenderer nat nat pixels

fun canvas_width :: "OffscreenCanvas \<Rightarrow> nat" where
  "canvas_width (With2D c) = c_width c"
| "canvas_width (WithBitmapRenderer w h px) = w"

fun canvas_height :: "OffscreenCanvas \<Rightarrow> nat" where
  "canvas_height (With2D c) = c_height c"
| "canvas_height (WithBitmapRenderer w h px) = h"

fun canvas_pixels :: "OffscreenCanvas \<Rightarrow> pixels" where
  "canvas_pixels (With2D c) = c_pixels c"
| "canvas_pixels (WithBitmapRenderer w h px) = px"

text \<open>
  \<^verbatim>\<open>canvas.convertToBlob({type: 'image/jpeg', quality: 0.99})\<close>: JPEG has no alpha
  channel, so the bitmap is put over opaque black with source-over before it is
  encoded, and only the pixels inside the canvas are read.
\<close>

definition convertToBlob :: "OffscreenCanvas \<Rightarrow> Blob" where
  "convertToBlob cv =
     \<lparr>blob_type = js ''image/jpeg'',
      blob_width = canvas_width cv,
      blob_height = canvas_height cv,
      blob_image = (\<lambda>x y.
         if x < canvas_width cv \<and> y < canvas_height cv
         then source_over 1 (canvas_pixels cv x y) opaque_black
         else opaque_black),
      blob_exif = None\<rparr>"

section \<open>The shared state of one CaptureCompositor\<close>

text \<open>
  \<^verbatim>\<open>this.options\<close> is one object shared by every method: the two composited flags of
  \<^verbatim>\<open>capture_exif_data\<close> are overwritten in place, and the capture bitmap is detached
  by \<^verbatim>\<open>transferFromImageBitmap\<close> and \<^verbatim>\<open>close\<close>. The state also records, in
  order, every access to \<^verbatim>\<open>this.options.capture\<close> together with the production path
  that made it.
\<close>

datatype path = CaptionPath | NormalPath

datatype frame_access = ReadWidth | ReadHeight | DrawImage | TransferFromImageBitmap | Close

record world =
  options :: ICaptureCompositorOptions
  capture_detached :: bool
  frame_log :: "(path \<times> frame_access) list"

definition touch :: "path \<Rightarrow> frame_access \<Rightarrow> world \<Rightarrow> world" where
  "touch p a w = w\<lparr>frame_log := frame_log w @ [(p, a)]\<rparr>"

text \<open>The width and height of a detached bitmap read as 0.\<close>

definition capture_width :: "world \<Rightarrow> nat" where
  "capture_width w = (if capture_detached w then 0 else bm_width (capture (options w)))"

definition capture_height :: "world \<Rightarrow> nat" where
  "capture_height w = (if capture_detached w then 0 else bm_height (capture (options w)))"

definition set_composited :: "bool \<Rightarrow> bool \<Rightarrow> world \<Rightarrow> world" where
  "set_composited cap com w =
     w\<lparr>options := (options w)\<lparr>capture_exif_data :=
          (capture_exif_data (options w))\<lparr>is_caption_composited := cap,
                                          is_comment_composited := com\<rparr>\<rparr>\<rparr>"

definition drawImage_bitmap :: "platform \<Rightarrow> ImageBitmap \<Rightarrow> Context2D \<Rightarrow> Context2D" where
  "drawImage_bitmap P b c =
     drawImage P (bm_width b) (bm_height b) (bm_data b) (c_width c) (c_height c) c"

section \<open>compositeComments\<close>

text \<open>
  The loop of \<^verbatim>\<open>compositeComments\<close> (lines 307 to 317): one comment sets the fill
  style, the font and the shadow, and draws its text. The font string of line 310 is kept
  as its three parts: the weight \<^verbatim>\<open>bold\<close>, the size in pixels and the list of
  families, in which the names are in single quotes. The canvas accepts that string when
  the size is finite and not negative (a CSS font size may not be negative), and ignores
  the assignment otherwise. The shadow colour of line 315 is a literal that is a CSS
  colour, so that assignment always takes effect.
\<close>

definition quoted :: "string \<Rightarrow> jsstring" where
  "quoted s = js [CHR 0x27] @ js s @ js [CHR 0x27]"

definition comment_font_family :: jsstring where
  "comment_font_family =
     quoted ''Open Sans'' @ js '','' @ quoted ''Hiragino Sans'' @ js '','' @
     quoted ''Noto Sans JP'' @ js '',sans-serif''"

definition comment_font :: "number \<Rightarrow> FontSpec" where
  "comment_font px =
     \<lparr>font_weight = js ''bold'', font_size_px = px, font_family = comment_font_family\<rparr>"

definition set_comment_font :: "number option \<Rightarrow> CommentContext \<Rightarrow> CommentContext" where
  "set_comment_font v c =
     (case v of None \<Rightarrow> c | Some px \<Rightarrow> (if 0 \<le> px then c\<lparr>font := comment_font px\<rparr> else c))"

definition draw_comment :: "platform \<Rightarrow> number option \<Rightarrow> number option \<Rightarrow> CaptureComment \<Rightarrow> CommentContext \<Rightarrow> CommentContext" where
  "draw_comment P width_ratio height_ratio comment c =
     (let c1 = set_fillStyle P (color comment) c;
          c2 = set_comment_font (js_times (font_size comment) width_ratio) c1;
          c3 = set_shadowOffsetX (js_times 1.2 width_ratio) c2;
          c4 = set_shadowOffsetY (js_times 1.2 width_ratio) c3;
          c5 = set_shadowBlur (js_times 4 width_ratio) c4;
          c6 = c5\<lparr>shadowColor := js ''rgba(0, 0, 0, 0.9)''\<rparr>
      in fillText (text_str comment) (js_times (left comment) width_ratio)
           (js_times (top_px comment) height_ratio) c6)"

fun draw_comments :: "platform \<Rightarrow> number option \<Rightarrow> number option \<Rightarrow> CaptureComment list \<Rightarrow> CommentContext \<Rightarrow> CommentContext" where
  "draw_comments P width_ratio height_ratio [] c = c"
| "draw_comments P width_ratio height_ratio (comment # rest) c =
     draw_comments P width_ratio height_ratio rest
       (draw_comment P width_ratio height_ratio comment c)"

text \<open>
  Lines 285 to 317: the temporary comment canvas of the size of the target canvas, with
  every comment drawn on it.
\<close>

definition comment_canvas_of :: "platform \<Rightarrow> ICaptureCommentData \<Rightarrow> nat \<Rightarrow> nat \<Rightarrow> CommentContext" where
  "comment_canvas_of P cd w h =
     (let comment_canvas_context = new_comment_context w h;
          width_ratio = js_div (real w) (container_width cd);
          height_ratio = js_div (real h) (container_height cd);
          c1 = comment_canvas_context\<lparr>textBaseline := Top\<rparr>
      in draw_comments P width_ratio height_ratio (comments cd) c1)"

text \<open>
  \<^verbatim>\<open>compositeComments(canvas, context)\<close>: the canvas and its 2D context are one value
  here. Lines 319 to 324 set the global alpha of the target and draw the comment canvas.
\<close>

definition compositeComments :: "platform \<Rightarrow> ICaptureCompositorOptions \<Rightarrow> Context2D \<Rightarrow> error + Context2D" where
  "compositeComments P opts context =
     (case capture_comment_data opts of
        None \<Rightarrow> Inl AssertionError
      | Some cd \<Rightarrow>
          let comment_canvas = comment_canvas_of P cd (c_width context) (c_height context);
              context1 = set_globalAlpha (opacity cd) context
          in Inr (drawImage P (cc_width comment_canvas) (cc_height comment_canvas)
                    (comment_pixels P comment_canvas) (c_width context) (c_height context) context1))"

section \<open>EXIF metadata\<close>

text \<open>
  The keys \<^verbatim>\<open>piexif.TagValues.ImageIFD.*\<close> and \<^verbatim>\<open>piexif.TagValues.ExifIFD.*\<close> are the
  tag numbers of the TIFF and EXIF standards. \<open>ImageIFD_Orientation\<close> is never written
  by the code; it is here to say so.
\<close>

definition ImageIFD_XResolution :: nat where "ImageIFD_XResolution = 282"
definition ImageIFD_YResolution :: nat where "ImageIFD_YResolution = 283"
definition ImageIFD_ResolutionUnit :: nat where "ImageIFD_ResolutionUnit = 296"
definition ImageIFD_YCbCrPositioning :: nat where "ImageIFD_YCbCrPositioning = 531"
definition ImageIFD_DateTime :: nat where "ImageIFD_DateTime = 306"
definition ImageIFD_Software :: nat where "ImageIFD_Software = 305"
definition ImageIFD_XPComment :: nat where "ImageIFD_XPComment = 40092"
definition ImageIFD_Orientation :: nat where "ImageIFD_Orientation = 274"
definition ExifIFD_ExifVersion :: nat where "ExifIFD_ExifVersion = 36864"
definition ExifIFD_ComponentsConfiguration :: nat where "ExifIFD_ComponentsConfiguration = 37121"
definition ExifIFD_FlashpixVersion :: nat where "ExifIFD_FlashpixVersion = 40960"
definition ExifIFD_ColorSpace :: nat where "ExifIFD_ColorSpace = 40961"
definition ExifIFD_DateTimeOriginal :: nat where "ExifIFD_DateTimeOriginal = 36867"
definition ExifIFD_DateTimeDigitized :: nat where "ExifIFD_DateTimeDigitized = 36868"

text \<open>\<^verbatim>\<open>[...Buffer.from(s, 'ucs2')]\<close>: two bytes for each code unit, the low byte first.\<close>

definition ucs2 :: "jsstring \<Rightarrow> nat list" where
  "ucs2 s = concat (map (\<lambda>u. [unat (u AND 0xFF), unat (drop_bit 8 u)]) s)"

text \<open>
  \<^verbatim>\<open>setEXIFDataToCapture\<close> up to its \<^verbatim>\<open>await\<close> (lines 336 to 367): the EXIF object
  built from the metadata record as it is when the method runs.
\<close>

definition build_exif :: "platform \<Rightarrow> ICaptureExifData \<Rightarrow> IExif" where
  "build_exif P d =
     (let datetime = dayjs_format P (captured_at d) (js ''YYYY:MM:DD HH:mm:ss'')
      in \<lparr>zeroth = [ImageIFD_XResolution \<mapsto> Numbers [72, 1],
                    ImageIFD_YResolution \<mapsto> Numbers [72, 1],
                    ImageIFD_ResolutionUnit \<mapsto> Number 2,
                    ImageIFD_YCbCrPositioning \<mapsto> Number 1,
                    ImageIFD_DateTime \<mapsto> Text datetime,
                    ImageIFD_Software \<mapsto> Text (js ''KonomiTV version '' @ Utils_version P),
                    ImageIFD_XPComment \<mapsto> Numbers (ucs2 (JSON_stringify P d))],
          Exif = [ExifIFD_ExifVersion \<mapsto> Text (js ''0230''),
                  ExifIFD_ComponentsConfiguration \<mapsto> Text [1, 2, 3, 0],
                  ExifIFD_FlashpixVersion \<mapsto> Text (js ''0100''),
                  ExifIFD_ColorSpace \<mapsto> Number 1,
                  ExifIFD_DateTimeOriginal \<mapsto> Text datetime,
                  ExifIFD_DateTimeDigitized \<mapsto> Text datetime]\<rparr>)"

text \<open>
  The rest of \<^verbatim>\<open>setEXIFDataToCapture\<close> (lines 368 to 390): the EXIF block is
  inserted into the image and a blob of the same type is returned.
\<close>

definition insert_exif :: "IExif \<Rightarrow> Blob \<Rightarrow> Blob" where
  "insert_exif e b = b\<lparr>blob_exif := Some e\<rparr>"

section \<open>The production paths\<close>

text \<open>
  An \<^verbatim>\<open>async\<close> method runs synchronously until its first \<^verbatim>\<open>await\<close> on a pending
  promise, and each of the three production methods reaches it in
  \<^verbatim>\<open>exportToBlob\<close>, at \<^verbatim>\<open>await canvas.convertToBlob(...)\<close>. A task is the state of
  the promise returned by a production method:
  \<^item> \<open>Null\<close>: the method was not called (the promise variable is \<^verbatim>\<open>null\<close>);
  \<^item> \<open>AwaitingConvertToBlob b\<close>: suspended in \<^verbatim>\<open>exportToBlob\<close>; \<open>b\<close> is the blob that
    \<^verbatim>\<open>convertToBlob\<close> will deliver (it encodes a copy of the bitmap taken at the call);
  \<^item> \<open>AwaitingFileReader b e\<close>: suspended in \<^verbatim>\<open>setEXIFDataToCapture\<close> at the
    \<^verbatim>\<open>FileReader\<close> promise, with the EXIF object \<open>e\<close> already built;
  \<^item> \<open>Resolved b\<close> and \<open>Rejected e\<close>: settled.
  The further \<^verbatim>\<open>await\<close>s of a path only pass a value on and touch no shared state.
\<close>

datatype task =
    Null
  | AwaitingConvertToBlob Blob
  | AwaitingFileReader Blob IExif
  | Resolved Blob
  | Rejected error

text \<open>\<^verbatim>\<open>exportToBlob\<close> up to its first \<^verbatim>\<open>await\<close>.\<close>

definition exportToBlob :: "OffscreenCanvas \<Rightarrow> task" where
  "exportToBlob canvas = AwaitingConvertToBlob (convertToBlob canvas)"

text \<open>
  The three production methods up to that \<^verbatim>\<open>await\<close>: each takes the shared state
  and gives the state it leaves behind and its task. A failed \<^verbatim>\<open>assert\<close> and a
  draw or transfer of a detached frame reject the task; what was written to the shared
  state before stays written.
\<close>

definition compositeInNormalDirectMode :: "platform \<Rightarrow> world \<Rightarrow> world \<times> task" where
  "compositeInNormalDirectMode P w =
     (case superimpose (options w) of
        Some s \<Rightarrow> (w, Rejected AssertionError)
      | None \<Rightarrow>
     (case capture_comment_data (options w) of
        Some cd \<Rightarrow> (w, Rejected AssertionError)
      | None \<Rightarrow>
          let w1 = set_composited False False w;
              w2 = touch NormalPath ReadHeight (touch NormalPath ReadWidth w1);
              w3 = touch NormalPath TransferFromImageBitmap w2
          in if capture_detached w2 then (w3, Rejected InvalidStateError)
             else
               let normal_direct_canvas =
                     WithBitmapRenderer (capture_width w1) (capture_height w1)
                       (bm_data (capture (options w2)));
                   w4 = w3\<lparr>capture_detached := True\<rparr>;
                   w5 = (touch NormalPath Close w4)\<lparr>capture_detached := True\<rparr>
               in (w5, exportToBlob normal_direct_canvas)))"

definition compositeInNormalMode :: "platform \<Rightarrow> world \<Rightarrow> world \<times> task" where
  "compositeInNormalMode P w =
     (let w1 = set_composited False
                 (if capture_comment_data (options w) \<noteq> None then True else False) w;
          normal_canvas = new_context2d (capture_width w1) (capture_height w1);
          w2 = touch NormalPath ReadHeight (touch NormalPath ReadWidth w1);
          w3 = touch NormalPath DrawImage w2
      in if capture_detached w2 then (w3, Rejected InvalidStateError)
         else
           let c1 = drawImage_bitmap P (capture (options w3)) normal_canvas;
               c2 = (case superimpose (options w3) of
                       None \<Rightarrow> c1
                     | Some s \<Rightarrow> drawImage_bitmap P s c1)
           in (case capture_comment_data (options w3) of
                 None \<Rightarrow> (w3, exportToBlob (With2D c2))
               | Some cd \<Rightarrow>
                   (case compositeComments P (options w3) c2 of
                      Inl e \<Rightarrow> (w3, Rejected e)
                    | Inr c3 \<Rightarrow> (w3, exportToBlob (With2D c3)))))"

definition compositeInCaptionMode :: "platform \<Rightarrow> world \<Rightarrow> world \<times> task" where
  "compositeInCaptionMode P w =
     (case caption (options w) of
        None \<Rightarrow> (w, Rejected AssertionError)
      | Some cap \<Rightarrow>
          let w1 = set_composited True
                     (if capture_comment_data (options w) \<noteq> None then True else False) w;
              caption_canvas = new_context2d (capture_width w1) (capture_height w1);
              w2 = touch CaptionPath ReadHeight (touch CaptionPath ReadWidth w1);
              w3 = touch CaptionPath DrawImage w2
          in if capture_detached w2 then (w3, Rejected InvalidStateError)
             else
               let c1 = drawImage_bitmap P (capture (options w3)) caption_canvas;
                   c2 = (case superimpose (options w3) of
                           None \<Rightarrow> c1
                         | Some s \<Rightarrow> drawImage_bitmap P s c1);
                   c3 = drawImage_bitmap P cap c2
               in (case capture_comment_data (options w3) of
                     None \<Rightarrow> (w3, exportToBlob (With2D c3))
                   | Some cd \<Rightarrow>
                       (case compositeComments P (options w3) c3 of
                          Inl e \<Rightarrow> (w3, Rejected e)
                        | Inr c4 \<Rightarrow> (w3, exportToBlob (With2D c4)))))"

section \<open>The event loop\<close>

text \<open>
  When the pending promise of a path settles, the path runs to its next \<^verbatim>\<open>await\<close>:
  from \<^verbatim>\<open>convertToBlob\<close> into \<^verbatim>\<open>setEXIFDataToCapture\<close>, which reads the shared
  metadata record as it is at that moment, and from the \<^verbatim>\<open>FileReader\<close> to the end.
\<close>

fun resume_task :: "platform \<Rightarrow> ICaptureExifData \<Rightarrow> task \<Rightarrow> task" where
  "resume_task P d (AwaitingConvertToBlob b) = AwaitingFileReader b (build_exif P d)"
| "resume_task P d (AwaitingFileReader b e) = Resolved (insert_exif e b)"
| "resume_task P d t = t"

fun pending :: "task \<Rightarrow> bool" where
  "pending (AwaitingConvertToBlob b) = True"
| "pending (AwaitingFileReader b e) = True"
| "pending t = False"

fun remaining :: "task \<Rightarrow> nat" where
  "remaining (AwaitingConvertToBlob b) = 2"
| "remaining (AwaitingFileReader b e) = 1"
| "remaining t = 0"

record state =
  shared :: world
  capture_caption_promise :: task
  capture_normal_promise :: task

fun promise_of :: "path \<Rightarrow> state \<Rightarrow> task" where
  "promise_of CaptionPath s = capture_caption_promise s"
| "promise_of NormalPath s = capture_normal_promise s"

fun resume :: "platform \<Rightarrow> path \<Rightarrow> state \<Rightarrow> state" where
  "resume P CaptionPath s =
     s\<lparr>capture_caption_promise :=
         resume_task P (capture_exif_data (options (shared s))) (capture_caption_promise s)\<rparr>"
| "resume P NormalPath s =
     s\<lparr>capture_normal_promise :=
         resume_task P (capture_exif_data (options (shared s))) (capture_normal_promise s)\<rparr>"

text \<open>
  The order in which the pending promises of the two paths settle is not determined by
  the code. A schedule lists the paths in the order the browser serves them; a path
  that has nothing pending yields to the other one, and when the schedule is used up the
  captioned path is served first. Every interleaving of the two paths is the run of
  some schedule.
\<close>

fun other :: "path \<Rightarrow> path" where
  "other CaptionPath = NormalPath"
| "other NormalPath = CaptionPath"

definition next_path :: "path list \<Rightarrow> state \<Rightarrow> path" where
  "next_path sched s =
     (case sched of
        [] \<Rightarrow> (if pending (capture_caption_promise s) then CaptionPath else NormalPath)
      | p # ps \<Rightarrow> (if pending (promise_of p s) then p else other p))"

definition unsettled :: "state \<Rightarrow> nat" where
  "unsettled s = remaining (capture_caption_promise s) + remaining (capture_normal_promise s)"

function event_loop :: "platform \<Rightarrow> path list \<Rightarrow> state \<Rightarrow> state" where
  "event_loop P sched s =
     (if unsettled s = 0 then s
      else event_loop P (tl sched) (resume P (next_path sched s) s))"
  by pat_completeness auto
termination
proof (relation "measure (\<lambda>(P, sched, s). unsettled s)")
  show "wf (measure (\<lambda>(P, sched, s). unsettled s))"
    by simp
next
  fix P :: platform and sched :: "path list" and s :: state
  assume open_work: "unsettled s \<noteq> 0"
  have drop: "remaining (resume_task P d t) < remaining t" if "pending t" for d t
    using that by (cases t) simp_all
  have live: "pending t \<longleftrightarrow> remaining t \<noteq> 0" for t
    by (cases t) simp_all
  have "pending (promise_of (next_path sched s) s)"
    using open_work
    by (cases sched; cases "hd sched") (auto simp: next_path_def unsettled_def live)
  then have "unsettled (resume P (next_path sched s) s) < unsettled s"
    by (cases "next_path sched s") (auto simp: unsettled_def dest: drop)
  then show "((P, tl sched, resume P (next_path sched s) s), (P, sched, s))
               \<in> measure (\<lambda>(P, sched, s). unsettled s)"
    by simp
qed

declare event_loop.simps [simp del]

section \<open>composite\<close>

definition initial_state :: "ICaptureCompositorOptions \<Rightarrow> state" where
  "initial_state opts =
     \<lparr>shared = \<lparr>options = opts, capture_detached = False, frame_log = []\<rparr>,
      capture_caption_promise = Null,
      capture_normal_promise = Null\<rparr>"

text \<open>
  \<^verbatim>\<open>composite\<close> up to its \<^verbatim>\<open>await\<close> (lines 119 to 137). The captioned
  production is called first (lines 124 to 126) and runs to its first \<^verbatim>\<open>await\<close>; then
  the normal production is called (lines 130 to 137), on the direct-transfer path when
  there is neither a superimpose layer nor comment data.
\<close>

definition schedule_caption :: "platform \<Rightarrow> state \<Rightarrow> state" where
  "schedule_caption P s =
     (if (mode (options (shared s)) = CompositingCaption \<or> mode (options (shared s)) = Both)
         \<and> caption (options (shared s)) \<noteq> None
      then (case compositeInCaptionMode P (shared s) of
              (w, t) \<Rightarrow> s\<lparr>shared := w, capture_caption_promise := t\<rparr>)
      else s)"

definition schedule_normal :: "platform \<Rightarrow> state \<Rightarrow> state" where
  "schedule_normal P s =
     (if (mode (options (shared s)) = VideoOnly \<or> mode (options (shared s)) = Both)
         \<or> (mode (options (shared s)) = CompositingCaption \<and> caption (options (shared s)) = None)
      then (if superimpose (options (shared s)) = None
               \<and> capture_comment_data (options (shared s)) = None
            then (case compositeInNormalDirectMode P (shared s) of
                    (w, t) \<Rightarrow> s\<lparr>shared := w, capture_normal_promise := t\<rparr>)
            else (case compositeInNormalMode P (shared s) of
                    (w, t) \<Rightarrow> s\<lparr>shared := w, capture_normal_promise := t\<rparr>))
      else s)"

definition composite_start :: "platform \<Rightarrow> ICaptureCompositorOptions \<Rightarrow> state" where
  "composite_start P opts = schedule_normal P (schedule_caption P (initial_state opts))"

text \<open>
  \<^verbatim>\<open>await Promise.all([capture_caption_promise, capture_normal_promise])\<close>: a
  \<^verbatim>\<open>null\<close> entry is passed through, a rejection rejects the whole (the captioned
  promise is looked at first).
\<close>

datatype outcome = Fulfilled ICaptureCompositorResult | Failed error | Unsettled

fun rejection :: "task \<Rightarrow> error option" where
  "rejection (Rejected e) = Some e"
| "rejection t = None"

fun fulfilment :: "task \<Rightarrow> Blob option" where
  "fulfilment (Resolved b) = Some b"
| "fulfilment t = None"

definition Promise_all :: "task \<Rightarrow> task \<Rightarrow> outcome" where
  "Promise_all c n =
     (case rejection c of
        Some e \<Rightarrow> Failed e
      | None \<Rightarrow>
     (case rejection n of
        Some e \<Rightarrow> Failed e
      | None \<Rightarrow>
          if pending c \<or> pending n then Unsettled
          else Fulfilled \<lparr>capture_normal = fulfilment n, capture_caption = fulfilment c\<rparr>))"

definition composite_end :: "platform \<Rightarrow> path list \<Rightarrow> ICaptureCompositorOptions \<Rightarrow> state" where
  "composite_end P sched opts = event_loop P sched (composite_start P opts)"

definition composite :: "platform \<Rightarrow> path list \<Rightarrow> ICaptureCompositorOptions \<Rightarrow> outcome" where
  "composite P sched opts =
     (let s = composite_end P sched opts
      in Promise_all (capture_caption_promise s) (capture_normal_promise s))"

section \<open>Reading a result\<close>

text \<open>The blob that a call of \<^verbatim>\<open>composite\<close> delivers for a path, if it delivers one.\<close>

definition output_of :: "path \<Rightarrow> outcome \<Rightarrow> Blob option" where
  "output_of p out =
     (case out of
        Fulfilled r \<Rightarrow> (case p of CaptionPath \<Rightarrow> capture_caption r | NormalPath \<Rightarrow> capture_normal r)
      | Failed e \<Rightarrow> None
      | Unsettled \<Rightarrow> None)"

text \<open>
  The decision table of the specification: for a mode and the presence of the subtitle
  layer, whether the normal and the captioned output are produced.
\<close>

fun spec_decision_table :: "Mode \<Rightarrow> bool \<Rightarrow> bool \<times> bool" where
  "spec_decision_table VideoOnly subtitle = (True, False)"
| "spec_decision_table CompositingCaption True = (False, True)"
| "spec_decision_table CompositingCaption False = (True, False)"
| "spec_decision_table Both True = (True, True)"
| "spec_decision_table Both False = (True, False)"

text \<open>A pending task run to its end against a metadata record that no longer changes.\<close>

fun settle :: "platform \<Rightarrow> ICaptureExifData \<Rightarrow> task \<Rightarrow> task" where
  "settle P d (AwaitingConvertToBlob b) = Resolved (insert_exif (build_exif P d) b)"
| "settle P d (AwaitingFileReader b e) = Resolved (insert_exif e b)"
| "settle P d t = t"

text \<open>A task suspended at \<^verbatim>\<open>convertToBlob\<close>: no EXIF object has been built for it yet.\<close>

fun awaiting_fresh :: "task \<Rightarrow> bool" where
  "awaiting_fresh (AwaitingConvertToBlob b) = (blob_exif b = None)"
| "awaiting_fresh t = False"

definition settle_all :: "platform \<Rightarrow> state \<Rightarrow> state" where
  "settle_all P s =
     s\<lparr>capture_caption_promise :=
         settle P (capture_exif_data (options (shared s))) (capture_caption_promise s),
       capture_normal_promise :=
         settle P (capture_exif_data (options (shared s))) (capture_normal_promise s)\<rparr>"

text \<open>The conditions of lines 124, 130 and 132 of \<^verbatim>\<open>composite\<close>, by name.\<close>

definition caption_wanted :: "ICaptureCompositorOptions \<Rightarrow> bool" where
  "caption_wanted opts =
     ((mode opts = CompositingCaption \<or> mode opts = Both) \<and> caption opts \<noteq> None)"

definition normal_wanted :: "ICaptureCompositorOptions \<Rightarrow> bool" where
  "normal_wanted opts =
     ((mode opts = VideoOnly \<or> mode opts = Both)
      \<or> (mode opts = CompositingCaption \<and> caption opts = None))"

definition direct_wanted :: "ICaptureCompositorOptions \<Rightarrow> bool" where
  "direct_wanted opts = (superimpose opts = None \<and> capture_comment_data opts = None)"

text \<open>The accesses to the frame that a job makes, and the metadata record it ends with.\<close>

definition accesses :: "path \<Rightarrow> frame_access list \<Rightarrow> (path \<times> frame_access) list" where
  "accesses p as = map (Pair p) as"

definition expected_log :: "ICaptureCompositorOptions \<Rightarrow> (path \<times> frame_access) list" where
  "expected_log opts =
     (if caption_wanted opts then accesses CaptionPath [ReadWidth, ReadHeight, DrawImage] else [])
     @ (if normal_wanted opts
        then (if direct_wanted opts
              then accesses NormalPath [ReadWidth, ReadHeight, TransferFromImageBitmap, Close]
              else accesses NormalPath [ReadWidth, ReadHeight, DrawImage])
        else [])"

definition final_exif :: "ICaptureCompositorOptions \<Rightarrow> ICaptureExifData" where
  "final_exif opts =
     (capture_exif_data opts)\<lparr>is_caption_composited := \<not> normal_wanted opts,
                              is_comment_composited := capture_comment_data opts \<noteq> None\<rparr>"

text \<open>
  Reading the log of frame accesses. The direct-transfer path consumes the frame by
  \<^verbatim>\<open>transferFromImageBitmap\<close> followed by \<^verbatim>\<open>close\<close>; after the transfer nothing but
  that \<^verbatim>\<open>close\<close> by the same path may follow, and after a \<^verbatim>\<open>close\<close> nothing.
\<close>

fun no_use_after_consume :: "(path \<times> frame_access) list \<Rightarrow> bool" where
  "no_use_after_consume [] = True"
| "no_use_after_consume ((p, TransferFromImageBitmap) # es) = (es = [] \<or> es = [(p, Close)])"
| "no_use_after_consume ((p, Close) # es) = (es = [])"
| "no_use_after_consume (e # es) = no_use_after_consume es"

fun consuming :: "path \<times> frame_access \<Rightarrow> bool" where
  "consuming (p, TransferFromImageBitmap) = True"
| "consuming (p, Close) = True"
| "consuming (p, a) = False"

definition consumers :: "(path \<times> frame_access) list \<Rightarrow> path list" where
  "consumers es = remdups (map fst (filter consuming es))"


text \<open>The \<^verbatim>\<open>fillText\<close> call of one comment, for given ratios, baseline and global alpha.\<close>

definition comment_draw :: "number \<Rightarrow> number \<Rightarrow> TextBaseline \<Rightarrow> number \<Rightarrow> CaptureComment \<Rightarrow> TextDraw" where
  "comment_draw wr hr bl ga c =
     \<lparr>td_text = text_str c,
      td_x = left c * wr,
      td_y = top_px c * hr,
      td_fillStyle = color c,
      td_font = comment_font (font_size c * wr),
      td_shadowOffsetX = 1.2 * wr,
      td_shadowOffsetY = 1.2 * wr,
      td_shadowBlur = 4 * wr,
      td_shadowColor = js ''rgba(0, 0, 0, 0.9)'',
      td_textBaseline = bl,
      td_globalAlpha = ga\<rparr>"

section \<open>A sample environment and sample jobs\<close>

text \<open>
  Concrete inputs on which the definitions are run: an environment with simple stand-ins
  for the library functions (the stand-in for dayjs copies the date and time fields of an
  ISO 8601 string; the stand-in for the colour parser accepts what starts like a hex or
  an rgb colour), a 2 by 2 frame, a subtitle layer and one comment.
\<close>

definition sample_platform :: platform where
  "sample_platform =
     \<lparr>Utils_version = js ''0.7.1'',
      dayjs_format = (\<lambda>s p. take 4 s @ js '':'' @ take 2 (drop 5 s) @ js '':''
                              @ take 2 (drop 8 s) @ js '' '' @ take 8 (drop 11 s)),
      JSON_stringify = (\<lambda>d. captured_at d
                          @ js (if is_caption_composited d then ''T'' else ''F'')
                          @ js (if is_comment_composited d then ''T'' else ''F'')),
      text_layer = (\<lambda>d w h x y. (0, 0, 0, 0)),
      resample = (\<lambda>sw sh src dw dh. src),
      valid_color = (\<lambda>s. take 1 s = js ''#'' \<or> take 4 s = js ''rgb('' \<or> take 5 s = js ''rgba('')\<rparr>"

definition sample_exif :: ICaptureExifData where
  "sample_exif =
     \<lparr>captured_at = js ''2023-01-02T03:04:05+09:00'',
      captured_playback_position = 10,
      network_id = 32736, service_id = 1024, event_id = 1,
      title = js ''News'', description = js ''Evening news'',
      start_time = js ''2023-01-02T03:00:00+09:00'',
      end_time = js ''2023-01-02T04:00:00+09:00'',
      duration = 3600,
      caption_text = None,
      is_caption_composited = True,
      is_comment_composited = True\<rparr>"

definition sample_frame :: ImageBitmap where
  "sample_frame = \<lparr>bm_width = 2, bm_height = 2, bm_data = (\<lambda>x y. (1, 0, 0, 1))\<rparr>"

definition sample_subtitle :: ImageBitmap where
  "sample_subtitle = \<lparr>bm_width = 2, bm_height = 2, bm_data = (\<lambda>x y. (0, 0, 0, 0))\<rparr>"


definition sample_comment :: "jsstring \<Rightarrow> number \<Rightarrow> CaptureComment" where
  "sample_comment col px =
     \<lparr>top_px = 10, left = 20, color = col, font_size = px, text_str = js ''hello''\<rparr>"

definition sample_layer :: "number \<Rightarrow> number \<Rightarrow> CaptureComment list \<Rightarrow> ICaptureCommentData" where
  "sample_layer cw ch cs =
     \<lparr>container_width = cw, container_height = ch, opacity = 1, comments = cs\<rparr>"

definition sample_job :: "Mode \<Rightarrow> ImageBitmap option \<Rightarrow> ICaptureCommentData option \<Rightarrow> ICaptureCompositorOptions" where
  "sample_job m sub com =
     \<lparr>mode = m, capture = sample_frame, caption = sub, superimpose = None,
      capture_comment_data = com, capture_exif_data = sample_exif\<rparr>"

section \<open>The event loop settles every pending task\<close>

lemma resume_shared: "shared (resume P p s) = shared s"
  by (cases p) simp_all

lemma settle_resume_task: "settle P d (resume_task P d t) = settle P d t"
  by (cases t) simp_all

lemma settle_idle: "remaining t = 0 \<Longrightarrow> settle P d t = t"
  by (cases t) simp_all

lemma settle_all_resume: "settle_all P (resume P p s) = settle_all P s"
  by (cases p) (simp_all add: settle_all_def settle_resume_task)

lemma event_loop_settles: "event_loop P sched s = settle_all P s"
proof (induction P sched s rule: event_loop.induct)
  case (1 P sched s)
  show ?case
  proof (cases "unsettled s = 0")
    case True
    then show ?thesis
      by (subst event_loop.simps) (simp add: settle_all_def unsettled_def settle_idle)
  next
    case False
    then show ?thesis
      using 1 by (subst event_loop.simps) (simp add: settle_all_resume)
  qed
qed

lemma settle_fresh:
  "awaiting_fresh t \<Longrightarrow>
     \<exists>b. t = AwaitingConvertToBlob b \<and> settle P d t = Resolved (b\<lparr>blob_exif := Some (build_exif P d)\<rparr>)"
  by (cases t) (simp_all add: insert_exif_def)

section \<open>The synchronous part of each path\<close>

lemma touch_simps:
  "options (touch p a w) = options w"
  "capture_detached (touch p a w) = capture_detached w"
  "frame_log (touch p a w) = frame_log w @ [(p, a)]"
  by (simp_all add: touch_def)

lemma caption_mode_run:
  assumes "caption (options w) = Some cap" and "\<not> capture_detached w"
  shows "\<exists>b. compositeInCaptionMode P w =
           (touch CaptionPath DrawImage (touch CaptionPath ReadHeight (touch CaptionPath ReadWidth
              (set_composited True (capture_comment_data (options w) \<noteq> None) w))),
            AwaitingConvertToBlob b) \<and> blob_exif b = None"
  using assms
  by (auto simp: compositeInCaptionMode_def Let_def compositeComments_def exportToBlob_def
      convertToBlob_def touch_simps set_composited_def split: option.splits sum.splits)

lemma normal_mode_run:
  assumes "\<not> capture_detached w"
  shows "\<exists>b. compositeInNormalMode P w =
           (touch NormalPath DrawImage (touch NormalPath ReadHeight (touch NormalPath ReadWidth
              (set_composited False (capture_comment_data (options w) \<noteq> None) w))),
            AwaitingConvertToBlob b) \<and> blob_exif b = None"
  using assms
  by (auto simp: compositeInNormalMode_def Let_def compositeComments_def exportToBlob_def
      convertToBlob_def touch_simps set_composited_def split: option.splits sum.splits)

lemma direct_mode_run:
  assumes "superimpose (options w) = None" and "capture_comment_data (options w) = None"
    and "\<not> capture_detached w"
  shows "\<exists>b. compositeInNormalDirectMode P w =
           ((touch NormalPath Close (touch NormalPath TransferFromImageBitmap
              (touch NormalPath ReadHeight (touch NormalPath ReadWidth
                (set_composited False False w)))))\<lparr>capture_detached := True\<rparr>,
            AwaitingConvertToBlob b) \<and> blob_exif b = None"
  using assms
  by (auto simp: compositeInNormalDirectMode_def Let_def exportToBlob_def convertToBlob_def
      touch_def set_composited_def)

lemma fst_caption:
  "caption (options w) = Some cap \<Longrightarrow> \<not> capture_detached w \<Longrightarrow>
   fst (compositeInCaptionMode P w) =
     touch CaptionPath DrawImage (touch CaptionPath ReadHeight (touch CaptionPath ReadWidth
              (set_composited True (capture_comment_data (options w) \<noteq> None) w)))"
  using caption_mode_run[of w cap P] by auto

lemma snd_caption:
  "caption (options w) = Some cap \<Longrightarrow> \<not> capture_detached w \<Longrightarrow>
   awaiting_fresh (snd (compositeInCaptionMode P w))"
  using caption_mode_run[of w cap P] by auto

lemma fst_normal:
  "\<not> capture_detached w \<Longrightarrow>
   fst (compositeInNormalMode P w) =
     touch NormalPath DrawImage (touch NormalPath ReadHeight (touch NormalPath ReadWidth
              (set_composited False (capture_comment_data (options w) \<noteq> None) w)))"
  using normal_mode_run[of w P] by auto

lemma snd_normal:
  "\<not> capture_detached w \<Longrightarrow> awaiting_fresh (snd (compositeInNormalMode P w))"
  using normal_mode_run[of w P] by auto

lemma fst_direct:
  "superimpose (options w) = None \<Longrightarrow> capture_comment_data (options w) = None \<Longrightarrow>
   \<not> capture_detached w \<Longrightarrow>
   fst (compositeInNormalDirectMode P w) =
     (touch NormalPath Close (touch NormalPath TransferFromImageBitmap
              (touch NormalPath ReadHeight (touch NormalPath ReadWidth
                (set_composited False False w)))))\<lparr>capture_detached := True\<rparr>"
  using direct_mode_run[of w P] by auto

lemma snd_direct:
  "superimpose (options w) = None \<Longrightarrow> capture_comment_data (options w) = None \<Longrightarrow>
   \<not> capture_detached w \<Longrightarrow>
   awaiting_fresh (snd (compositeInNormalDirectMode P w))"
  using direct_mode_run[of w P] by auto

section \<open>The synchronous part of composite\<close>

lemma schedule_caption_facts:
  "options (shared (schedule_caption P (initial_state opts))) =
     (if caption_wanted opts
      then opts\<lparr>capture_exif_data := (capture_exif_data opts)\<lparr>is_caption_composited := True,
             is_comment_composited := capture_comment_data opts \<noteq> None\<rparr>\<rparr>
      else opts)"
  "capture_detached (shared (schedule_caption P (initial_state opts))) = False"
  "frame_log (shared (schedule_caption P (initial_state opts))) =
     (if caption_wanted opts then accesses CaptionPath [ReadWidth, ReadHeight, DrawImage] else [])"
  "capture_normal_promise (schedule_caption P (initial_state opts)) = Null"
  "caption_wanted opts \<Longrightarrow>
     awaiting_fresh (capture_caption_promise (schedule_caption P (initial_state opts)))"
  "\<not> caption_wanted opts \<Longrightarrow>
     capture_caption_promise (schedule_caption P (initial_state opts)) = Null"
  by (auto simp: schedule_caption_def initial_state_def caption_wanted_def touch_simps
      case_prod_unfold fst_caption snd_caption set_composited_def accesses_def)

lemma schedule_normal_facts:
  assumes "\<not> capture_detached (shared s)"
  shows
  "capture_exif_data (options (shared (schedule_normal P s))) =
     (if normal_wanted (options (shared s))
      then (capture_exif_data (options (shared s)))\<lparr>is_caption_composited := False,
             is_comment_composited := capture_comment_data (options (shared s)) \<noteq> None\<rparr>
      else capture_exif_data (options (shared s)))"
  "capture_detached (shared (schedule_normal P s)) =
     (normal_wanted (options (shared s)) \<and> direct_wanted (options (shared s)))"
  "frame_log (shared (schedule_normal P s)) = frame_log (shared s) @
     (if normal_wanted (options (shared s))
        then (if direct_wanted (options (shared s))
              then accesses NormalPath [ReadWidth, ReadHeight, TransferFromImageBitmap, Close]
              else accesses NormalPath [ReadWidth, ReadHeight, DrawImage])
        else [])"
  "capture_caption_promise (schedule_normal P s) = capture_caption_promise s"
  "normal_wanted (options (shared s)) \<Longrightarrow>
     awaiting_fresh (capture_normal_promise (schedule_normal P s))"
  "\<not> normal_wanted (options (shared s)) \<Longrightarrow>
     capture_normal_promise (schedule_normal P s) = capture_normal_promise s"
  using assms
  by (auto simp: schedule_normal_def normal_wanted_def direct_wanted_def touch_simps
      case_prod_unfold fst_normal snd_normal fst_direct snd_direct set_composited_def accesses_def)

lemma wanted_exif_update:
  "caption_wanted (opts\<lparr>capture_exif_data := d\<rparr>) = caption_wanted opts"
  "normal_wanted (opts\<lparr>capture_exif_data := d\<rparr>) = normal_wanted opts"
  "direct_wanted (opts\<lparr>capture_exif_data := d\<rparr>) = direct_wanted opts"
  by (simp_all add: caption_wanted_def normal_wanted_def direct_wanted_def)

lemma wanted_after_caption:
  "normal_wanted (options (shared (schedule_caption P (initial_state opts)))) = normal_wanted opts"
  "direct_wanted (options (shared (schedule_caption P (initial_state opts)))) = direct_wanted opts"
  by (simp_all add: schedule_caption_facts wanted_exif_update)

lemma one_is_wanted: "caption_wanted opts \<or> normal_wanted opts"
  by (cases "mode opts") (auto simp: caption_wanted_def normal_wanted_def)

lemma start_exif:
  "capture_exif_data (options (shared (composite_start P opts))) = final_exif opts"
  using one_is_wanted[of opts]
  by (auto simp: composite_start_def schedule_normal_facts schedule_caption_facts
      wanted_exif_update final_exif_def)

lemma start_log: "frame_log (shared (composite_start P opts)) = expected_log opts"
  by (simp add: composite_start_def schedule_normal_facts schedule_caption_facts(2,3)
      wanted_after_caption expected_log_def)

lemma start_caption_promise:
  "caption_wanted opts \<Longrightarrow> awaiting_fresh (capture_caption_promise (composite_start P opts))"
  "\<not> caption_wanted opts \<Longrightarrow> capture_caption_promise (composite_start P opts) = Null"
  by (simp_all add: composite_start_def schedule_normal_facts schedule_caption_facts)

lemma start_normal_promise:
  "normal_wanted opts \<Longrightarrow> awaiting_fresh (capture_normal_promise (composite_start P opts))"
  "\<not> normal_wanted opts \<Longrightarrow> capture_normal_promise (composite_start P opts) = Null"
  by (simp_all add: composite_start_def schedule_normal_facts schedule_caption_facts(2,4)
      wanted_after_caption)

section \<open>The result of composite\<close>

text \<open>What a path delivers: its blob with the final record's EXIF.\<close>

lemma end_promises:
  "capture_caption_promise (composite_end P sched opts) =
     settle P (final_exif opts) (capture_caption_promise (composite_start P opts))"
  "capture_normal_promise (composite_end P sched opts) =
     settle P (final_exif opts) (capture_normal_promise (composite_start P opts))"
  "shared (composite_end P sched opts) = shared (composite_start P opts)"
  by (simp_all add: composite_end_def event_loop_settles settle_all_def start_exif)

lemma settle_fresh_exif:
  assumes "awaiting_fresh t"
  shows "\<exists>b. settle P d t = Resolved b \<and> blob_exif b = Some (build_exif P d)"
  using settle_fresh[OF assms, of P d] by auto

lemma end_caption:
  "caption_wanted opts \<Longrightarrow>
     \<exists>b. capture_caption_promise (composite_end P sched opts) = Resolved b
        \<and> blob_exif b = Some (build_exif P (final_exif opts))"
  "\<not> caption_wanted opts \<Longrightarrow> capture_caption_promise (composite_end P sched opts) = Null"
  by (simp_all add: end_promises start_caption_promise settle_fresh_exif)

lemma end_normal:
  "normal_wanted opts \<Longrightarrow>
     \<exists>b. capture_normal_promise (composite_end P sched opts) = Resolved b
        \<and> blob_exif b = Some (build_exif P (final_exif opts))"
  "\<not> normal_wanted opts \<Longrightarrow> capture_normal_promise (composite_end P sched opts) = Null"
  by (simp_all add: end_promises start_normal_promise settle_fresh_exif)

lemma composite_result:
  "\<exists>r. composite P sched opts = Fulfilled r
     \<and> (caption_wanted opts \<longrightarrow>
          (\<exists>b. capture_caption r = Some b \<and> blob_exif b = Some (build_exif P (final_exif opts))))
     \<and> (\<not> caption_wanted opts \<longrightarrow> capture_caption r = None)
     \<and> (normal_wanted opts \<longrightarrow>
          (\<exists>b. capture_normal r = Some b \<and> blob_exif b = Some (build_exif P (final_exif opts))))
     \<and> (\<not> normal_wanted opts \<longrightarrow> capture_normal r = None)"
  using end_caption[of opts P sched] end_normal[of opts P sched]
  by (cases "caption_wanted opts"; cases "normal_wanted opts")
     (auto simp: composite_def Let_def Promise_all_def)

section \<open>Comments and opacity\<close>

lemmas setter_defs = set_fillStyle_def set_comment_font_def set_shadowOffsetX_def
  set_shadowOffsetY_def set_shadowBlur_def fillText_def js_times_def

lemma draw_comment_fields:
  "cc_width (draw_comment P wr hr c ctx) = cc_width ctx"
  "cc_height (draw_comment P wr hr c ctx) = cc_height ctx"
  "textBaseline (draw_comment P wr hr c ctx) = textBaseline ctx"
  "cc_globalAlpha (draw_comment P wr hr c ctx) = cc_globalAlpha ctx"
  by (simp_all add: draw_comment_def setter_defs Let_def split: option.splits)

lemma draw_comments_fields:
  "cc_width (draw_comments P wr hr cs ctx) = cc_width ctx"
  "cc_height (draw_comments P wr hr cs ctx) = cc_height ctx"
  "cc_globalAlpha (draw_comments P wr hr cs ctx) = cc_globalAlpha ctx"
  by (induction cs arbitrary: ctx) (simp_all add: draw_comment_fields)

text \<open>Whatever is accepted or ignored, a text is drawn with the global alpha of the context.\<close>

lemma draw_comment_alpha:
  assumes "list_all (\<lambda>d. td_globalAlpha d = a) (drawn ctx)" and "cc_globalAlpha ctx = a"
  shows "list_all (\<lambda>d. td_globalAlpha d = a) (drawn (draw_comment P wr hr c ctx))"
  using assms
  by (simp add: draw_comment_def setter_defs Let_def split: option.splits)

lemma draw_comments_alpha:
  assumes "list_all (\<lambda>d. td_globalAlpha d = a) (drawn ctx)" and "cc_globalAlpha ctx = a"
  shows "list_all (\<lambda>d. td_globalAlpha d = a) (drawn (draw_comments P wr hr cs ctx))"
  using assms
  by (induction cs arbitrary: ctx) (simp_all add: draw_comment_alpha draw_comment_fields)

lemma map_constant:
  "list_all (\<lambda>d. f d = a) xs \<Longrightarrow> map f xs = replicate (length xs) a"
  by (induction xs) simp_all

lemma comment_canvas_alpha:
  "map td_globalAlpha (drawn (comment_canvas_of P cd w h))
     = replicate (length (drawn (comment_canvas_of P cd w h))) 1"
  by (rule map_constant)
     (simp add: comment_canvas_of_def Let_def draw_comments_alpha new_comment_context_def)

text \<open>With finite ratios and accepted values every assignment takes effect.\<close>

lemma drawn_draw_comment:
  assumes "valid_color P (color c)" and "0 \<le> font_size c" and "0 \<le> r"
  shows "drawn (draw_comment P (Some r) (Some q) c ctx)
     = drawn ctx @ [comment_draw r q (textBaseline ctx) (cc_globalAlpha ctx) c]"
  using assms
  by (simp add: draw_comment_def setter_defs Let_def comment_draw_def)

lemma drawn_draw_comments:
  assumes "list_all (\<lambda>c. valid_color P (color c) \<and> 0 \<le> font_size c) cs" and "0 \<le> r"
  shows "drawn (draw_comments P (Some r) (Some q) cs ctx)
     = drawn ctx @ map (comment_draw r q (textBaseline ctx) (cc_globalAlpha ctx)) cs"
  using assms
  by (induction cs arbitrary: ctx) (simp_all add: drawn_draw_comment draw_comment_fields)

lemma comment_scaling_same:
  assumes "w \<noteq> 0" and "container_width cd = real w"
  shows "js_div (real w) (container_width cd) = Some 1"
  unfolding js_div_def assms(2) using assms(1) by simp

lemma comment_scaling_half:
  assumes "w \<noteq> 0" and "container_width cd = real w / 2"
  shows "js_div (real w) (container_width cd) = Some 2"
  unfolding js_div_def assms(2) using assms(1) by simp

lemma comment_canvas_size:
  "cc_width (comment_canvas_of P cd w h) = w"
  "cc_height (comment_canvas_of P cd w h) = h"
  by (simp_all add: comment_canvas_of_def Let_def draw_comments_fields new_comment_context_def)

lemma source_over_zero: "source_over 0 s d = d"
  by (cases s; cases d) (simp add: source_over_def)

lemma compositeComments_pixels:
  "compositeComments P (opts\<lparr>capture_comment_data := Some cd\<rparr>) context =
     Inr (context
       \<lparr>globalAlpha := (if 0 \<le> opacity cd \<and> opacity cd \<le> 1 then opacity cd else globalAlpha context),
        c_pixels := (\<lambda>x y.
           if x < c_width context \<and> y < c_height context
           then source_over
                  (if 0 \<le> opacity cd \<and> opacity cd \<le> 1 then opacity cd else globalAlpha context)
                  (comment_pixels P (comment_canvas_of P cd (c_width context) (c_height context)) x y)
                  (c_pixels context x y)
           else c_pixels context x y)\<rparr>)"
  by (simp add: compositeComments_def Let_def drawImage_def set_globalAlpha_def scale_to_def
      comment_canvas_size cong: if_cong)

lemma convertToBlob_alpha:
  "convertToBlob (With2D (c\<lparr>globalAlpha := a\<rparr>)) = convertToBlob (With2D c)"
  by (simp add: convertToBlob_def cong: if_cong)

lemma compositeComments_transparent:
  assumes "capture_comment_data opts = Some cd" and "opacity cd = 0"
  shows "compositeComments P opts c = Inr (c\<lparr>globalAlpha := 0\<rparr>)"
proof -
  have "opts = opts\<lparr>capture_comment_data := Some cd\<rparr>"
    using assms(1) by simp
  then have "compositeComments P opts c
               = compositeComments P (opts\<lparr>capture_comment_data := Some cd\<rparr>) c"
    by simp
  then show ?thesis
    using assms(2) by (simp add: compositeComments_pixels source_over_zero cong: if_cong)
qed

lemma transparent_comments_normal:
  "snd (compositeInNormalMode P
          (w\<lparr>options := (options w)\<lparr>capture_comment_data := Some (cd\<lparr>opacity := 0\<rparr>)\<rparr>\<rparr>))
   = snd (compositeInNormalMode P (w\<lparr>options := (options w)\<lparr>capture_comment_data := None\<rparr>\<rparr>))"
  by (simp add: compositeInNormalMode_def Let_def touch_def set_composited_def exportToBlob_def
      compositeComments_transparent convertToBlob_alpha capture_width_def capture_height_def)

lemma transparent_comments_caption:
  "snd (compositeInCaptionMode P
          (w\<lparr>options := (options w)\<lparr>capture_comment_data := Some (cd\<lparr>opacity := 0\<rparr>)\<rparr>\<rparr>))
   = snd (compositeInCaptionMode P (w\<lparr>options := (options w)\<lparr>capture_comment_data := None\<rparr>\<rparr>))"
  by (simp add: compositeInCaptionMode_def Let_def touch_def set_composited_def exportToBlob_def
      compositeComments_transparent convertToBlob_alpha capture_width_def capture_height_def
      split: option.splits)

lemma flatten_twice:
  "source_over 1 (source_over 1 s opaque_black) opaque_black = source_over 1 s opaque_black"
  by (cases s) (simp add: source_over_def opaque_black_def)

section \<open>The EXIF block\<close>

lemmas tag_defs = ImageIFD_XResolution_def ImageIFD_YResolution_def ImageIFD_ResolutionUnit_def
  ImageIFD_YCbCrPositioning_def ImageIFD_DateTime_def ImageIFD_Software_def ImageIFD_XPComment_def
  ImageIFD_Orientation_def ExifIFD_ExifVersion_def ExifIFD_ComponentsConfiguration_def
  ExifIFD_FlashpixVersion_def ExifIFD_ColorSpace_def ExifIFD_DateTimeOriginal_def
  ExifIFD_DateTimeDigitized_def

lemma not_normal_wanted:
  "(\<not> normal_wanted opts) = (mode opts = CompositingCaption \<and> caption opts \<noteq> None)"
  by (cases "mode opts") (simp_all add: normal_wanted_def)

lemma output_embeds_final_record:
  assumes "output_of p (composite P sched opts) = Some b"
  shows "blob_exif b = Some (build_exif P (final_exif opts))"
proof -
  obtain r where r: "composite P sched opts = Fulfilled r"
    and c: "caption_wanted opts \<longrightarrow>
          (\<exists>b. capture_caption r = Some b \<and> blob_exif b = Some (build_exif P (final_exif opts)))"
           "\<not> caption_wanted opts \<longrightarrow> capture_caption r = None"
    and n: "normal_wanted opts \<longrightarrow>
          (\<exists>b. capture_normal r = Some b \<and> blob_exif b = Some (build_exif P (final_exif opts)))"
           "\<not> normal_wanted opts \<longrightarrow> capture_normal r = None"
    using composite_result[of P sched opts] by auto
  show ?thesis
    using assms r c n by (cases p) (auto simp: output_of_def)
qed

lemma build_exif_zeroth:
  "zeroth (build_exif P d) ImageIFD_XResolution = Some (Numbers [72, 1])"
  "zeroth (build_exif P d) ImageIFD_YResolution = Some (Numbers [72, 1])"
  "zeroth (build_exif P d) ImageIFD_ResolutionUnit = Some (Number 2)"
  "zeroth (build_exif P d) ImageIFD_YCbCrPositioning = Some (Number 1)"
  "zeroth (build_exif P d) ImageIFD_Orientation = None"
  "zeroth (build_exif P d) ImageIFD_DateTime
     = Some (Text (dayjs_format P (captured_at d) (js ''YYYY:MM:DD HH:mm:ss'')))"
  "zeroth (build_exif P d) ImageIFD_Software
     = Some (Text (js ''KonomiTV version '' @ Utils_version P))"
  "zeroth (build_exif P d) ImageIFD_XPComment = Some (Numbers (ucs2 (JSON_stringify P d)))"
  "dom (zeroth (build_exif P d))
     = {ImageIFD_XResolution, ImageIFD_YResolution, ImageIFD_ResolutionUnit,
        ImageIFD_YCbCrPositioning, ImageIFD_DateTime, ImageIFD_Software, ImageIFD_XPComment}"
  by (auto simp: build_exif_def Let_def tag_defs)

lemma build_exif_Exif:
  "Exif (build_exif P d) ExifIFD_ExifVersion = Some (Text (js ''0230''))"
  "Exif (build_exif P d) ExifIFD_ComponentsConfiguration = Some (Text [1, 2, 3, 0])"
  "Exif (build_exif P d) ExifIFD_FlashpixVersion = Some (Text (js ''0100''))"
  "Exif (build_exif P d) ExifIFD_ColorSpace = Some (Number 1)"
  "Exif (build_exif P d) ExifIFD_DateTimeOriginal
     = Some (Text (dayjs_format P (captured_at d) (js ''YYYY:MM:DD HH:mm:ss'')))"
  "Exif (build_exif P d) ExifIFD_DateTimeDigitized
     = Some (Text (dayjs_format P (captured_at d) (js ''YYYY:MM:DD HH:mm:ss'')))"
  "dom (Exif (build_exif P d))
     = {ExifIFD_ExifVersion, ExifIFD_ComponentsConfiguration, ExifIFD_FlashpixVersion,
        ExifIFD_ColorSpace, ExifIFD_DateTimeOriginal, ExifIFD_DateTimeDigitized}"
  by (auto simp: build_exif_def Let_def tag_defs)

section \<open>Running the definitions on the samples\<close>

lemmas run_defs = composite_def composite_end_def composite_start_def schedule_caption_def
  schedule_normal_def initial_state_def compositeInNormalDirectMode_def compositeInNormalMode_def
  compositeInCaptionMode_def compositeComments_def exportToBlob_def Promise_all_def output_of_def
  sample_job_def set_composited_def touch_def unsettled_def next_path_def Let_def

section \<open>Which outputs are produced\<close>

text \<open>
  Claim C1. For every job, every environment and every order in which the pending
  promises settle, \<^verbatim>\<open>composite\<close> is fulfilled, and the outputs that are present are
  those of the decision table of the specification: the captioned output is present iff
  the mode is CompositingCaption or Both and the subtitle layer is not null; the normal
  output is present iff the mode is VideoOnly or Both, or the mode is
  CompositingCaption and the subtitle layer is null.
\<close>

theorem composite_presence_pattern:
  "\<exists>r. composite P sched opts = Fulfilled r
     \<and> (capture_normal r \<noteq> None, capture_caption r \<noteq> None)
         = spec_decision_table (mode opts) (caption opts \<noteq> None)
     \<and> ((capture_caption r \<noteq> None)
          = ((mode opts = CompositingCaption \<or> mode opts = Both) \<and> caption opts \<noteq> None))
     \<and> ((capture_normal r \<noteq> None)
          = (mode opts = VideoOnly \<or> mode opts = Both
             \<or> (mode opts = CompositingCaption \<and> caption opts = None)))"
proof -
  obtain r where r: "composite P sched opts = Fulfilled r"
    and c: "caption_wanted opts \<longrightarrow> capture_caption r \<noteq> None"
           "\<not> caption_wanted opts \<longrightarrow> capture_caption r = None"
    and n: "normal_wanted opts \<longrightarrow> capture_normal r \<noteq> None"
           "\<not> normal_wanted opts \<longrightarrow> capture_normal r = None"
    using composite_result[of P sched opts] by auto
  have cap: "(capture_caption r \<noteq> None) = caption_wanted opts"
    using c by auto
  have nor: "(capture_normal r \<noteq> None) = normal_wanted opts"
    using n by auto
  have table: "(normal_wanted opts, caption_wanted opts)
                 = spec_decision_table (mode opts) (caption opts \<noteq> None)"
    by (cases "mode opts"; cases "caption opts")
       (simp_all add: normal_wanted_def caption_wanted_def)
  have "(capture_normal r \<noteq> None, capture_caption r \<noteq> None)
          = spec_decision_table (mode opts) (caption opts \<noteq> None)"
    using table by (simp only: cap nor)
  moreover have "(capture_caption r \<noteq> None)
          = ((mode opts = CompositingCaption \<or> mode opts = Both) \<and> caption opts \<noteq> None)"
    by (simp only: cap caption_wanted_def)
  moreover have "(capture_normal r \<noteq> None)
          = (mode opts = VideoOnly \<or> mode opts = Both
             \<or> (mode opts = CompositingCaption \<and> caption opts = None))"
    by (simp only: nor normal_wanted_def disj_assoc)
  ultimately show ?thesis
    using r by blast
qed

section \<open>The composited flags in the embedded metadata\<close>





text \<open>
  Claim C2, at the job with mode Both, a subtitle layer, no superimpose layer and no
  comment data. The captioned output embeds the block of the record with
  \<open>is_caption_composited = false\<close>, although the captioned path has set the flag to
  true before compositing: the normal path has overwritten the shared record before
  the captioned path serialises it. Here the captioned path is even served first. The
  block differs from the one the record with the flag set would give.
\<close>

theorem captioned_output_flag_in_both_mode:
  "map_option blob_exif
     (output_of CaptionPath
        (composite sample_platform [CaptionPath, CaptionPath, NormalPath, NormalPath]
           (sample_job Both (Some sample_subtitle) None)))
   = Some (Some (build_exif sample_platform
                  (sample_exif\<lparr>is_caption_composited := False, is_comment_composited := False\<rparr>)))
   \<and> build_exif sample_platform
         (sample_exif\<lparr>is_caption_composited := False, is_comment_composited := False\<rparr>)
       \<noteq> build_exif sample_platform
           (sample_exif\<lparr>is_caption_composited := True, is_comment_composited := False\<rparr>)"
proof -
  have "zeroth (build_exif sample_platform
           (sample_exif\<lparr>is_caption_composited := False, is_comment_composited := False\<rparr>))
          ImageIFD_XPComment
        \<noteq> zeroth (build_exif sample_platform
           (sample_exif\<lparr>is_caption_composited := True, is_comment_composited := False\<rparr>))
          ImageIFD_XPComment"
    by (simp add: build_exif_def sample_platform_def ucs2_def js_def Let_def)
  then have "build_exif sample_platform
         (sample_exif\<lparr>is_caption_composited := False, is_comment_composited := False\<rparr>)
       \<noteq> build_exif sample_platform
           (sample_exif\<lparr>is_caption_composited := True, is_comment_composited := False\<rparr>)"
    by (rule contrapos_nn) simp
  then show ?thesis
    by (simp add: run_defs event_loop.simps insert_exif_def convertToBlob_def)
qed

section \<open>The direct-transfer path and the frame\<close>



text \<open>
  Claim C9. For every job and every order in which the promises settle: the accesses to
  the frame are those of the captioned path first and those of the normal path after
  them; nothing follows the transfer of the frame but the \<^verbatim>\<open>close\<close> by the same
  path; at most one path consumes the frame; and no path fails on a detached frame
  (\<^verbatim>\<open>composite\<close> is fulfilled).
\<close>

theorem frame_consumed_last:
  "frame_log (shared (composite_end P sched opts)) = expected_log opts
   \<and> no_use_after_consume (frame_log (shared (composite_end P sched opts)))
   \<and> length (consumers (frame_log (shared (composite_end P sched opts)))) \<le> 1
   \<and> (\<exists>r. composite P sched opts = Fulfilled r)"
proof -
  have log: "frame_log (shared (composite_end P sched opts)) = expected_log opts"
    by (simp add: end_promises(3) start_log)
  have "no_use_after_consume (expected_log opts)"
    by (simp add: expected_log_def accesses_def)
  moreover have "length (consumers (expected_log opts)) \<le> 1"
    by (simp add: expected_log_def accesses_def consumers_def)
  moreover have "\<exists>r. composite P sched opts = Fulfilled r"
    using composite_result[of P sched opts] by blast
  ultimately show ?thesis
    using log by simp
qed

section \<open>Rendering the comments\<close>

text \<open>
  Claim C5 as stated, for every comment data, fails where the canvas does not accept
  what the code assigns. With a container width of 0 the ratio is not finite and
  nothing is drawn, and so with a container height of 0. With a negative container
  width the font size and the shadow blur are negative and are ignored: the text is
  drawn in the default font with no blur. A negative font size is ignored in the same
  way. A colour that is not a CSS colour is ignored: the second comment here is drawn
  in the colour of the first.
\<close>

theorem comments_not_drawn_as_given:
  "drawn (comment_canvas_of sample_platform
            (sample_layer 0 1 [sample_comment (js ''#ffffff'') 20]) 2 2) = []
   \<and> drawn (comment_canvas_of sample_platform
              (sample_layer 1 0 [sample_comment (js ''#ffffff'') 20]) 2 2) = []
   \<and> map td_font (drawn (comment_canvas_of sample_platform
              (sample_layer (- 1) 1 [sample_comment (js ''#ffffff'') 20]) 2 2))
       = [\<lparr>font_weight = js ''normal'', font_size_px = 10, font_family = js ''sans-serif''\<rparr>]
   \<and> map td_shadowBlur (drawn (comment_canvas_of sample_platform
              (sample_layer (- 1) 1 [sample_comment (js ''#ffffff'') 20]) 2 2)) = [0]
   \<and> map td_font (drawn (comment_canvas_of sample_platform
              (sample_layer 1 1 [sample_comment (js ''#ffffff'') (- 20)]) 2 2))
       = [\<lparr>font_weight = js ''normal'', font_size_px = 10, font_family = js ''sans-serif''\<rparr>]
   \<and> map td_fillStyle (drawn (comment_canvas_of sample_platform
              (sample_layer 1 1 [sample_comment (js ''#ffffff'') 20,
                                 sample_comment (js ''no colour'') 20]) 2 2))
       = [js ''#ffffff'', js ''#ffffff'']"
  by (simp add: comment_canvas_of_def draw_comment_def setter_defs js_div_def Let_def
      new_comment_context_def sample_layer_def sample_comment_def sample_platform_def js_def)

text \<open>
  Claim C5, amended. For every comment data with a positive container width, a
  container height other than 0, colours that the canvas accepts and font sizes that
  are not negative, and for every target size, the \<^verbatim>\<open>fillText\<close> calls made on the
  comment canvas are one for each comment, in input order: at
  \<open>(left * width_ratio, top * height_ratio)\<close>, with the text baseline \<open>top\<close>, a bold
  font of size \<open>font_size * width_ratio\<close>, the comment's colour as fill style, shadow
  offsets \<open>1.2 * width_ratio\<close> in both axes, shadow blur \<open>4 * width_ratio\<close> and the
  shadow colour \<^verbatim>\<open>rgba(0, 0, 0, 0.9)\<close>, where \<open>width_ratio\<close> is the target width
  over the container width and \<open>height_ratio\<close> the target height over the container
  height.
\<close>

theorem comments_drawn_in_order:
  assumes "0 < container_width cd" and "container_height cd \<noteq> 0"
    and "list_all (\<lambda>comment. valid_color P (color comment) \<and> 0 \<le> font_size comment)
           (comments cd)"
  shows "drawn (comment_canvas_of P cd w h) =
     map (\<lambda>comment.
            \<lparr>td_text = text_str comment,
             td_x = left comment * (real w / container_width cd),
             td_y = top_px comment * (real h / container_height cd),
             td_fillStyle = color comment,
             td_font = \<lparr>font_weight = js ''bold'',
                        font_size_px = font_size comment * (real w / container_width cd),
                        font_family = comment_font_family\<rparr>,
             td_shadowOffsetX = 1.2 * (real w / container_width cd),
             td_shadowOffsetY = 1.2 * (real w / container_width cd),
             td_shadowBlur = 4 * (real w / container_width cd),
             td_shadowColor = js ''rgba(0, 0, 0, 0.9)'',
             td_textBaseline = Top,
             td_globalAlpha = 1\<rparr>)
         (comments cd)"
proof -
  have ratio: "0 \<le> real w / container_width cd"
    using assms(1) by simp
  have "drawn (comment_canvas_of P cd w h)
          = map (comment_draw (real w / container_width cd) (real h / container_height cd) Top 1)
              (comments cd)"
    using assms(1,2) drawn_draw_comments [OF assms(3) ratio]
    by (simp add: comment_canvas_of_def js_div_def Let_def new_comment_context_def)
  then show ?thesis
    by (simp add: comment_draw_def comment_font_def)
qed

theorem comments_drawn_in_order_witness:
  "0 < container_width (sample_layer 1 4 [sample_comment (js ''#ffffff'') 20])
   \<and> container_height (sample_layer 1 4 [sample_comment (js ''#ffffff'') 20]) \<noteq> 0
   \<and> valid_color sample_platform (js ''#ffffff'')
   \<and> drawn (comment_canvas_of sample_platform
              (sample_layer 1 4 [sample_comment (js ''#ffffff'') 20]) 2 2)
       = [\<lparr>td_text = js ''hello'', td_x = 40, td_y = 5, td_fillStyle = js ''#ffffff'',
           td_font = \<lparr>font_weight = js ''bold'', font_size_px = 40,
                      font_family = comment_font_family\<rparr>,
           td_shadowOffsetX = 2.4, td_shadowOffsetY = 2.4, td_shadowBlur = 8,
           td_shadowColor = js ''rgba(0, 0, 0, 0.9)'',
           td_textBaseline = Top, td_globalAlpha = 1\<rparr>]"
  using comments_drawn_in_order
    [of "sample_layer 1 4 [sample_comment (js ''#ffffff'') 20]" sample_platform 2 2]
  by (simp add: sample_layer_def sample_comment_def sample_platform_def js_def)

text \<open>
  Claim C6. \<^verbatim>\<open>compositeComments\<close> draws the comment canvas onto the target once, with
  the opacity as the global alpha of that one draw (an opacity outside of 0..1 is
  ignored by the setter and leaves the alpha of the context as it was). The comment
  canvas does not depend on the opacity, and every text on it is drawn with global
  alpha 1. With opacity 0 the pixels of the target stay as they are, and the normal and
  the captioned production hand the same bitmap to the encoder as without comment
  data. With opacity 1 the comment canvas is put over the target unattenuated.
\<close>

theorem comment_opacity_applied_once:
  "compositeComments P (opts\<lparr>capture_comment_data := Some cd\<rparr>) context =
     Inr (context
       \<lparr>globalAlpha := (if 0 \<le> opacity cd \<and> opacity cd \<le> 1 then opacity cd else globalAlpha context),
        c_pixels := (\<lambda>x y.
           if x < c_width context \<and> y < c_height context
           then source_over
                  (if 0 \<le> opacity cd \<and> opacity cd \<le> 1 then opacity cd else globalAlpha context)
                  (comment_pixels P (comment_canvas_of P cd (c_width context) (c_height context)) x y)
                  (c_pixels context x y)
           else c_pixels context x y)\<rparr>)
   \<and> comment_canvas_of P (cd\<lparr>opacity := v\<rparr>) w h = comment_canvas_of P cd w h
   \<and> map td_globalAlpha (drawn (comment_canvas_of P cd w h))
       = replicate (length (drawn (comment_canvas_of P cd w h))) 1
   \<and> compositeComments P (opts\<lparr>capture_comment_data := Some (cd\<lparr>opacity := 0\<rparr>)\<rparr>) context
       = Inr (context\<lparr>globalAlpha := 0\<rparr>)
   \<and> compositeComments P (opts\<lparr>capture_comment_data := Some (cd\<lparr>opacity := 1\<rparr>)\<rparr>) context
       = Inr (context
           \<lparr>globalAlpha := 1,
            c_pixels := (\<lambda>x y.
              if x < c_width context \<and> y < c_height context
              then (case comment_pixels P
                           (comment_canvas_of P cd (c_width context) (c_height context)) x y of
                      (sr, sg, sb, sa) \<Rightarrow>
                    case c_pixels context x y of
                      (dr, dg, db, da) \<Rightarrow>
                        (sr + (1 - sa) * dr, sg + (1 - sa) * dg,
                         sb + (1 - sa) * db, sa + (1 - sa) * da))
              else c_pixels context x y)\<rparr>)
   \<and> snd (compositeInNormalMode P
            (wd\<lparr>options := (options wd)\<lparr>capture_comment_data := Some (cd\<lparr>opacity := 0\<rparr>)\<rparr>\<rparr>))
       = snd (compositeInNormalMode P
                (wd\<lparr>options := (options wd)\<lparr>capture_comment_data := None\<rparr>\<rparr>))
   \<and> snd (compositeInCaptionMode P
            (wd\<lparr>options := (options wd)\<lparr>capture_comment_data := Some (cd\<lparr>opacity := 0\<rparr>)\<rparr>\<rparr>))
       = snd (compositeInCaptionMode P
                (wd\<lparr>options := (options wd)\<lparr>capture_comment_data := None\<rparr>\<rparr>))"
proof -
  have indep: "comment_canvas_of P (cd\<lparr>opacity := v\<rparr>) w h = comment_canvas_of P cd w h" for v w h
    by (simp add: comment_canvas_of_def)
  have ones: "map td_globalAlpha (drawn (comment_canvas_of P cd w h))
                = replicate (length (drawn (comment_canvas_of P cd w h))) 1"
    by (rule comment_canvas_alpha)
  have zero: "compositeComments P (opts\<lparr>capture_comment_data := Some (cd\<lparr>opacity := 0\<rparr>)\<rparr>) context
       = Inr (context\<lparr>globalAlpha := 0\<rparr>)"
    by (simp add: compositeComments_pixels source_over_zero cong: if_cong)
  have one: "compositeComments P (opts\<lparr>capture_comment_data := Some (cd\<lparr>opacity := 1\<rparr>)\<rparr>) context
       = Inr (context
           \<lparr>globalAlpha := 1,
            c_pixels := (\<lambda>x y.
              if x < c_width context \<and> y < c_height context
              then (case comment_pixels P
                           (comment_canvas_of P cd (c_width context) (c_height context)) x y of
                      (sr, sg, sb, sa) \<Rightarrow>
                    case c_pixels context x y of
                      (dr, dg, db, da) \<Rightarrow>
                        (sr + (1 - sa) * dr, sg + (1 - sa) * dg,
                         sb + (1 - sa) * db, sa + (1 - sa) * da))
              else c_pixels context x y)\<rparr>)"
    by (simp add: compositeComments_pixels indep source_over_def cong: if_cong)
  show ?thesis
    using compositeComments_pixels indep ones zero one
      transparent_comments_normal transparent_comments_caption
    by blast
qed

section \<open>The embedded EXIF block\<close>

text \<open>
  Claim C7 as stated fails on the orientation: the primary group of the embedded block
  has no entry under the Orientation tag. The code writes YCbCrPositioning instead.
\<close>

theorem no_orientation_in_primary_group:
  "map_option blob_exif
     (output_of NormalPath (composite sample_platform [] (sample_job VideoOnly None None)))
   = Some (Some (build_exif sample_platform
                  (sample_exif\<lparr>is_caption_composited := False, is_comment_composited := False\<rparr>)))
   \<and> zeroth (build_exif sample_platform
         (sample_exif\<lparr>is_caption_composited := False, is_comment_composited := False\<rparr>))
       ImageIFD_Orientation = None"
  by (simp add: run_defs event_loop.simps insert_exif_def convertToBlob_def build_exif_zeroth(5))

text \<open>
  Claim C7, amended. Every produced output embeds a block whose primary group holds
  exactly: X and Y resolution 72/1, resolution unit 2, YCbCr positioning 1 (and no
  orientation), the capture time formatted by the pattern \<^verbatim>\<open>YYYY:MM:DD HH:mm:ss\<close>
  under DateTime, the software string \<^verbatim>\<open>KonomiTV version\<close> followed by the version,
  and under XPComment the UTF-16 (low byte first) bytes of the JSON text of the whole
  metadata record with its composited flags as the code has set them; and whose detail
  group holds exactly: the version strings 0230 and 0100, the components configuration
  1 2 3 0, colour space 1, and the same formatted time under DateTimeOriginal and
  DateTimeDigitized.
\<close>

theorem embedded_exif_block:
  assumes "output_of p (composite P sched opts) = Some b"
  shows "\<exists>e. blob_exif b = Some e
     \<and> zeroth e ImageIFD_XResolution = Some (Numbers [72, 1])
     \<and> zeroth e ImageIFD_YResolution = Some (Numbers [72, 1])
     \<and> zeroth e ImageIFD_ResolutionUnit = Some (Number 2)
     \<and> zeroth e ImageIFD_YCbCrPositioning = Some (Number 1)
     \<and> zeroth e ImageIFD_Orientation = None
     \<and> zeroth e ImageIFD_DateTime
         = Some (Text (dayjs_format P (captured_at (capture_exif_data opts))
                         (js ''YYYY:MM:DD HH:mm:ss'')))
     \<and> zeroth e ImageIFD_Software = Some (Text (js ''KonomiTV version '' @ Utils_version P))
     \<and> zeroth e ImageIFD_XPComment
         = Some (Numbers (ucs2 (JSON_stringify P
              ((capture_exif_data opts)
                 \<lparr>is_caption_composited := (mode opts = CompositingCaption \<and> caption opts \<noteq> None),
                  is_comment_composited := (capture_comment_data opts \<noteq> None)\<rparr>))))
     \<and> dom (zeroth e)
         = {ImageIFD_XResolution, ImageIFD_YResolution, ImageIFD_ResolutionUnit,
            ImageIFD_YCbCrPositioning, ImageIFD_DateTime, ImageIFD_Software, ImageIFD_XPComment}
     \<and> Exif e ExifIFD_ExifVersion = Some (Text (js ''0230''))
     \<and> Exif e ExifIFD_ComponentsConfiguration = Some (Text [1, 2, 3, 0])
     \<and> Exif e ExifIFD_FlashpixVersion = Some (Text (js ''0100''))
     \<and> Exif e ExifIFD_ColorSpace = Some (Number 1)
     \<and> Exif e ExifIFD_DateTimeOriginal
         = Some (Text (dayjs_format P (captured_at (capture_exif_data opts))
                         (js ''YYYY:MM:DD HH:mm:ss'')))
     \<and> Exif e ExifIFD_DateTimeDigitized
         = Some (Text (dayjs_format P (captured_at (capture_exif_data opts))
                         (js ''YYYY:MM:DD HH:mm:ss'')))
     \<and> dom (Exif e)
         = {ExifIFD_ExifVersion, ExifIFD_ComponentsConfiguration, ExifIFD_FlashpixVersion,
            ExifIFD_ColorSpace, ExifIFD_DateTimeOriginal, ExifIFD_DateTimeDigitized}"
proof -
  have fin: "final_exif opts = (capture_exif_data opts)
                 \<lparr>is_caption_composited := (mode opts = CompositingCaption \<and> caption opts \<noteq> None),
                  is_comment_composited := (capture_comment_data opts \<noteq> None)\<rparr>"
    by (simp only: final_exif_def not_normal_wanted)
  have at: "captured_at (final_exif opts) = captured_at (capture_exif_data opts)"
    by (simp add: final_exif_def)
  have "blob_exif b = Some (build_exif P (final_exif opts))"
    using assms by (rule output_embeds_final_record)
  then show ?thesis
    using build_exif_zeroth[of P "final_exif opts"] build_exif_Exif[of P "final_exif opts"]
    unfolding at fin[symmetric]
    by simp
qed

theorem embedded_exif_block_witness:
  "\<exists>b e. output_of NormalPath
            (composite sample_platform [] (sample_job VideoOnly None None)) = Some b
     \<and> blob_exif b = Some e
     \<and> zeroth e ImageIFD_YCbCrPositioning = Some (Number 1)
     \<and> zeroth e ImageIFD_Orientation = None
     \<and> zeroth e ImageIFD_DateTime = Some (Text (js ''2023:01:02 03:04:05''))
     \<and> Exif e ExifIFD_DateTimeOriginal = Some (Text (js ''2023:01:02 03:04:05''))"
proof -
  obtain b where b: "output_of NormalPath
            (composite sample_platform [] (sample_job VideoOnly None None)) = Some b"
    by (simp add: run_defs event_loop.simps)
  show ?thesis
    using b embedded_exif_block [OF b]
    by (auto simp: sample_job_def sample_platform_def sample_exif_def js_def)
qed

section \<open>Direct transfer against full compositing\<close>

text \<open>
  Claim C8. When there is neither a superimpose layer nor comment data, the
  direct-transfer path and the full compositing path, started in the same state, hand
  the same bitmap to the JPEG encoder (or both fail on a detached frame), leave the
  same metadata record, and so deliver the same blob.
\<close>

theorem direct_transfer_equals_full_composite:
  assumes "superimpose (options w) = None" and "capture_comment_data (options w) = None"
  shows "snd (compositeInNormalDirectMode P w) = snd (compositeInNormalMode P w)
       \<and> capture_exif_data (options (fst (compositeInNormalDirectMode P w)))
           = capture_exif_data (options (fst (compositeInNormalMode P w)))
       \<and> settle P (capture_exif_data (options (fst (compositeInNormalDirectMode P w))))
            (snd (compositeInNormalDirectMode P w))
           = settle P (capture_exif_data (options (fst (compositeInNormalMode P w))))
               (snd (compositeInNormalMode P w))"
proof -
  have task: "snd (compositeInNormalDirectMode P w) = snd (compositeInNormalMode P w)"
  proof (cases "capture_detached w")
    case True
    then show ?thesis
      using assms
      by (simp add: compositeInNormalDirectMode_def compositeInNormalMode_def Let_def touch_def
          set_composited_def)
  next
    case False
    have "convertToBlob (WithBitmapRenderer (bm_width (capture (options w)))
             (bm_height (capture (options w))) (bm_data (capture (options w))))
          = convertToBlob (With2D (drawImage_bitmap P (capture (options w))
              (new_context2d (bm_width (capture (options w))) (bm_height (capture (options w))))))"
      by (simp add: convertToBlob_def drawImage_bitmap_def drawImage_def new_context2d_def
          scale_to_def flatten_twice cong: if_cong)
    then show ?thesis
      using assms False
      by (simp add: compositeInNormalDirectMode_def compositeInNormalMode_def Let_def touch_def
          set_composited_def exportToBlob_def capture_width_def capture_height_def)
  qed
  have exif: "capture_exif_data (options (fst (compositeInNormalDirectMode P w)))
           = capture_exif_data (options (fst (compositeInNormalMode P w)))"
    using assms
    by (simp add: compositeInNormalDirectMode_def compositeInNormalMode_def Let_def touch_def
        set_composited_def)
  show ?thesis
    using task exif by simp
qed

theorem direct_transfer_equals_full_composite_witness:
  "superimpose (sample_job VideoOnly None None) = None
   \<and> capture_comment_data (sample_job VideoOnly None None) = None
   \<and> snd (compositeInNormalDirectMode sample_platform
            \<lparr>options = sample_job VideoOnly None None, capture_detached = False, frame_log = []\<rparr>)
       = snd (compositeInNormalMode sample_platform
            \<lparr>options = sample_job VideoOnly None None, capture_detached = False, frame_log = []\<rparr>)"
  using direct_transfer_equals_full_composite
    [of "\<lparr>options = sample_job VideoOnly None None, capture_detached = False, frame_log = []\<rparr>"
        sample_platform]
  by (simp add: sample_job_def)

end
